theory Spec2Isabelle
  imports Complex_Main "HOL-Library.Log_Nat" "HOL-Library.Option_ord"
    "HOL-Library.Product_Lexorder" "HOL-Library.Multiset"
begin

section \<open>Cricket Scorecard API: main.py and schemas.py\<close>

subsection \<open>Python floats\<close>

text \<open>
  A Python \<^verbatim>\<open>float\<close> is an IEEE binary64 number. A finite one is modelled by the
  rational it denotes; every operation computes the exact rational result and then rounds
  it to 53 significant bits, to nearest with ties to even, as the hardware does. The
  exponent range is not bounded here: the model agrees with CPython while the magnitudes
  stay within the range of binary64, where neither overflow nor subnormal numbers arise.

  \<open>round_half_even n d\<close> is the integer nearest to \<open>n / d\<close> for \<open>0 < d\<close>, the even one of
  the two at a tie.
\<close>

definition round_half_even :: "int \<Rightarrow> int \<Rightarrow> int" where
  "round_half_even n d =
     (let q = n div d; r = n mod d
      in if 2 * r < d then q
         else if d < 2 * r then q + 1
         else if even q then q else q + 1)"

definition scale2 :: "int \<Rightarrow> rat" where
  "scale2 k = (if 0 \<le> k then 2 ^ nat k else 1 / 2 ^ nat (- k))"

text \<open>
  \<open>fl_pos n d\<close> rounds the positive fraction \<open>n / d\<close>: \<open>t\<close> is chosen with
  \<open>2 ^ 52 \<le> n / d * 2 ^ t < 2 ^ 53\<close>, the scaled value is rounded to an integer
  significand, and the significand is scaled back.
\<close>

definition fl_pos :: "int \<Rightarrow> int \<Rightarrow> rat" where
  "fl_pos n d =
     (let t0 = 53 - (bitlen n - bitlen d);
          t = (if of_int d * 2 ^ 53 \<le> of_int n * scale2 t0 then t0 - 1 else t0);
          m = (if 0 \<le> t then round_half_even (n * 2 ^ nat t) d
               else round_half_even n (d * 2 ^ nat (- t)))
      in of_int m * scale2 (- t))"

definition binary64 :: "rat \<Rightarrow> rat" where
  "binary64 q =
     (let (n, d) = quotient_of q
      in if n = 0 then 0
         else if 0 < n then fl_pos n d
         else - fl_pos (- n) d)"

text \<open>\<^verbatim>\<open>a / b\<close> on two ints (true division, correctly rounded) and \<^verbatim>\<open>x * y\<close> on floats.\<close>

definition int_truediv :: "int \<Rightarrow> int \<Rightarrow> rat" where
  "int_truediv a b = binary64 (of_int a / of_int b)"

definition float_mul :: "rat \<Rightarrow> rat \<Rightarrow> rat" where
  "float_mul x y = binary64 (x * y)"

text \<open>
  \<^verbatim>\<open>round(x, ndigits)\<close> on a float, for \<open>ndigits \<ge> 0\<close>: CPython converts \<open>x\<close> to the
  decimal string with \<open>ndigits\<close> digits after the point that is nearest to the exact value
  of \<open>x\<close> (ties to the even last digit) and reads that string back as a float.
\<close>

definition decimal_digits :: "rat \<Rightarrow> nat \<Rightarrow> int" where
  "decimal_digits x ndigits =
     (let (n, d) = quotient_of (x * 10 ^ ndigits) in round_half_even n d)"

definition py_round :: "rat \<Rightarrow> nat \<Rightarrow> rat" where
  "py_round x ndigits = binary64 (of_int (decimal_digits x ndigits) / 10 ^ ndigits)"

text \<open>
  \<^verbatim>\<open>
  def strike_rate(runs: int, balls: int) -> float:
      if balls <= 0:
          return 0.0
      return round((runs / balls) * 100, 2)
  \<close>
\<close>

definition strike_rate :: "int \<Rightarrow> int \<Rightarrow> rat" where
  "strike_rate runs balls =
     (if balls \<le> 0 then 0
      else py_round (float_mul (int_truediv runs balls) 100) 2)"

subsection \<open>Identifiers\<close>

text \<open>
  A bson \<^verbatim>\<open>ObjectId\<close> holds 12 bytes. Its constructor accepts a \<^verbatim>\<open>str\<close> of 24
  hexadecimal digits, of either case, and raises \<^verbatim>\<open>InvalidId\<close> on any other
  \<^verbatim>\<open>str\<close>; \<^verbatim>\<open>str(oid)\<close> is the 24 lowercase hexadecimal digits of the bytes.
\<close>

datatype ObjectId = ObjectId (binary: "nat list")

definition valid_oid :: "ObjectId \<Rightarrow> bool" where
  "valid_oid oid \<longleftrightarrow> length (binary oid) = 12 \<and> list_all (\<lambda>b. b < 256) (binary oid)"

definition hex_value :: "char \<Rightarrow> nat option" where
  "hex_value c = map_of (zip ''0123456789abcdef'' [0..<16] @ zip ''ABCDEF'' [10..<16]) c"

definition hex_digit :: "nat \<Rightarrow> char" where
  "hex_digit d = ''0123456789abcdef'' ! d"

fun bytes_of_nibbles :: "nat list \<Rightarrow> nat list" where
  "bytes_of_nibbles (h # l # ds) = (16 * h + l) # bytes_of_nibbles ds"
| "bytes_of_nibbles _ = []"

definition ObjectId_new :: "string \<Rightarrow> ObjectId option" where
  "ObjectId_new oid =
     (if length oid = 24
      then (case those (map hex_value oid) of
              Some ds \<Rightarrow> Some (ObjectId (bytes_of_nibbles ds))
            | None \<Rightarrow> None)
      else None)"

definition str_ObjectId :: "ObjectId \<Rightarrow> string" where
  "str_ObjectId oid = concat (map (\<lambda>b. [hex_digit (b div 16), hex_digit (b mod 16)]) (binary oid))"

text \<open>
  The errors the endpoints answer with: an \<^verbatim>\<open>HTTPException\<close> with its status code and
  detail, and the 422 that FastAPI raises when a request body does not validate against the
  pydantic model of the handler's parameter.
\<close>

datatype error = HTTPException nat string | RequestValidationError

text \<open>
  \<^verbatim>\<open>
  def to_object_id(id_str: str) -> ObjectId:
      try:
          return ObjectId(id_str)
      except Exception:
          raise HTTPException(status_code=400, detail="Invalid ID format")
  \<close>
\<close>

definition to_object_id :: "string \<Rightarrow> error + ObjectId" where
  "to_object_id id_str =
     (case ObjectId_new id_str of
        Some oid \<Rightarrow> Inr oid
      | None \<Rightarrow> Inl (HTTPException 400 ''Invalid ID format''))"

text \<open>
  The spec's notion of a well-formed key, in its own words: a fixed-length hexadecimal
  identifier.
\<close>

definition hex_char :: "char \<Rightarrow> bool" where
  "hex_char c \<longleftrightarrow> c \<in> set ''0123456789abcdefABCDEF''"

definition well_formed_key :: "string \<Rightarrow> bool" where
  "well_formed_key s \<longleftrightarrow> length s = 24 \<and> list_all hex_char s"

subsection \<open>Dates\<close>

text \<open>
  A naive \<^verbatim>\<open>datetime\<close>, as the driver returns the dates of the store. The store orders
  dates by their instant, which is the lexicographic order of the fields; a missing date
  (null) sorts before every date.
\<close>

record datetime =
  year :: nat
  month :: nat
  day :: nat
  hour :: nat
  minute :: nat
  second :: nat
  microsecond :: nat

definition dt_key :: "datetime \<Rightarrow> nat \<times> nat \<times> nat \<times> nat \<times> nat \<times> nat \<times> nat" where
  "dt_key d = (year d, month d, day d, hour d, minute d, second d, microsecond d)"

fun str_nat :: "nat \<Rightarrow> string" where
  "str_nat n = (if n < 10 then [hex_digit n] else str_nat (n div 10) @ [hex_digit (n mod 10)])"

definition zero_pad :: "nat \<Rightarrow> nat \<Rightarrow> string" where
  "zero_pad w n = replicate (w - length (str_nat n)) CHR ''0'' @ str_nat n"

definition strftime_Ymd :: "datetime \<Rightarrow> string" where
  "strftime_Ymd d = zero_pad 4 (year d) @ ''-'' @ zero_pad 2 (month d) @ ''-'' @ zero_pad 2 (day d)"

definition isoformat :: "datetime \<Rightarrow> string" where
  "isoformat d =
     strftime_Ymd d @ ''T'' @ zero_pad 2 (hour d) @ '':'' @ zero_pad 2 (minute d) @ '':''
       @ zero_pad 2 (second d)
       @ (if microsecond d = 0 then [] else ''.'' @ zero_pad 6 (microsecond d))"

subsection \<open>Schemas (schemas.py)\<close>

text \<open>
  The pydantic models. A request body is a value of the model's shape, with every omitted
  optional field at its default; \<open>Player_valid\<close> and \<open>Innings_valid\<close> are the \<^verbatim>\<open>Field\<close>
  constraints that the validation of the body checks.
  \<^verbatim>\<open>
  class Player(BaseModel):
      name: str = Field(..., min_length=1, max_length=100)
      role: Optional[str] = Field(None)

  class Innings(BaseModel):
      player_id: str = Field(...)
      runs: int = Field(..., ge=0, le=400)
      balls: int = Field(..., ge=0, le=400)
      fours: int = Field(0, ge=0, le=200)
      sixes: int = Field(0, ge=0, le=200)
      out: bool = Field(True)
      opposition: Optional[str] = Field(None, max_length=100)
      venue: Optional[str] = Field(None, max_length=100)
      date: Optional[datetime] = Field(None)
  \<close>
\<close>

record Player =
  name :: string
  role :: "string option"

record Innings =
  player_id :: string
  runs :: int
  balls :: int
  fours :: int
  sixes :: int
  out :: bool
  opposition :: "string option"
  venue :: "string option"
  date :: "datetime option"

definition Player_valid :: "Player \<Rightarrow> bool" where
  "Player_valid p \<longleftrightarrow> 1 \<le> length (name p) \<and> length (name p) \<le> 100"

definition max_length :: "nat \<Rightarrow> string option \<Rightarrow> bool" where
  "max_length n s = (case s of None \<Rightarrow> True | Some v \<Rightarrow> length v \<le> n)"

definition Innings_valid :: "Innings \<Rightarrow> bool" where
  "Innings_valid i \<longleftrightarrow>
     0 \<le> runs i \<and> runs i \<le> 400 \<and>
     0 \<le> balls i \<and> balls i \<le> 400 \<and>
     0 \<le> fours i \<and> fours i \<le> 200 \<and>
     0 \<le> sixes i \<and> sixes i \<le> 200 \<and>
     max_length 100 (opposition i) \<and>
     max_length 100 (venue i)"

subsection \<open>The record store\<close>

text \<open>
  The documents of the two collections are the dumped models with the \<^verbatim>\<open>_id\<close> that the
  store assigned. \<open>calls\<close> is the trace of the calls made on the database handle, kept so
  that "no store access" can be stated; it is not data of the store.
\<close>

record player_doc = Player +
  player_oid :: ObjectId

record innings_doc = Innings +
  innings_oid :: ObjectId

datatype db_call = FindOne string | Find string | Aggregate string | InsertOne string

record database =
  player_coll :: "player_doc list"
  innings_coll :: "innings_doc list"
  calls :: "db_call list"

definition called :: "db_call \<Rightarrow> database \<Rightarrow> database" where
  "called c db = db\<lparr>calls := calls db @ [c]\<rparr>"

text \<open>\<^verbatim>\<open>db["player"].find_one({"_id": obj_id})\<close>\<close>

definition find_one_player :: "database \<Rightarrow> ObjectId \<Rightarrow> player_doc option \<times> database" where
  "find_one_player db obj_id =
     (find (\<lambda>p. player_oid p = obj_id) (player_coll db), called (FindOne ''player'') db)"

text \<open>
  \<^verbatim>\<open>db["innings"].find({"player_id": pid}).sort("date", direction)\<close>, with \<open>1\<close> for
  ascending and \<open>-1\<close> for descending. The server leaves the order of documents with equal
  dates open; here they keep the order of the collection.
\<close>

definition date_key ::
  "innings_doc \<Rightarrow> (nat \<times> nat \<times> nat \<times> nat \<times> nat \<times> nat \<times> nat) option" where
  "date_key i = map_option dt_key (date i)"

definition sort_by_date :: "int \<Rightarrow> innings_doc list \<Rightarrow> innings_doc list" where
  "sort_by_date direction ms =
     (if direction = 1 then sort_key date_key ms else rev (sort_key date_key (rev ms)))"

definition find_innings :: "database \<Rightarrow> string \<Rightarrow> int \<Rightarrow> innings_doc list \<times> database" where
  "find_innings db pid direction =
     (sort_by_date direction (filter (\<lambda>i. player_id i = pid) (innings_coll db)),
      called (Find ''innings'') db)"

text \<open>
  The pipeline \<^verbatim>\<open>[{"$match": {"player_id": pid}}, {"$group": {"_id": "$player_id",
  "runs": {"$sum": "$runs"}, "balls": {"$sum": "$balls"}, "fours": {"$sum": "$fours"},
  "sixes": {"$sum": "$sixes"}, "innings": {"$sum": 1}}}]\<close>: one group when a document
  matches, none otherwise. Sums are exact integers.
\<close>

record stats =
  st_id :: "string option"
  st_runs :: int
  st_balls :: int
  st_fours :: int
  st_sixes :: int
  st_innings :: int

definition aggregate_innings :: "database \<Rightarrow> string \<Rightarrow> stats list \<times> database" where
  "aggregate_innings db pid =
     (let ms = filter (\<lambda>i. player_id i = pid) (innings_coll db)
      in (if ms = [] then []
          else [\<lparr>st_id = Some pid,
                 st_runs = sum_list (map runs ms),
                 st_balls = sum_list (map balls ms),
                 st_fours = sum_list (map fours ms),
                 st_sixes = sum_list (map sixes ms),
                 st_innings = int (length ms)\<rparr>],
          called (Aggregate ''innings'') db))"

text \<open>
  \<^verbatim>\<open>next(agg, None) or {"runs": 0, "balls": 0, "fours": 0, "sixes": 0, "innings": 0}\<close>
\<close>

definition next_or_default :: "stats list \<Rightarrow> stats" where
  "next_or_default agg =
     (case agg of
        [] \<Rightarrow> \<lparr>st_id = None, st_runs = 0, st_balls = 0, st_fours = 0, st_sixes = 0, st_innings = 0\<rparr>
      | g # _ \<Rightarrow> g)"

text \<open>
  Modelled from the spec: \<^verbatim>\<open>get_documents\<close> and \<^verbatim>\<open>create_document\<close> of database.py,
  which is not among the sources. \<^verbatim>\<open>get_documents(kind)\<close> returns every document of the
  collection in the store's order; \<^verbatim>\<open>create_document(kind, payload)\<close> stores the payload
  as a new document and returns the generated identifier as a string. The identifier that
  the store generates is a parameter.
\<close>

definition get_documents_player :: "database \<Rightarrow> player_doc list \<times> database" where
  "get_documents_player db = (player_coll db, called (Find ''player'') db)"

definition create_document_player :: "database \<Rightarrow> Player \<Rightarrow> ObjectId \<Rightarrow> string \<times> database" where
  "create_document_player db p new_id =
     (str_ObjectId new_id,
      called (InsertOne ''player'')
        (db\<lparr>player_coll := player_coll db @ [\<lparr>name = name p, role = role p, player_oid = new_id\<rparr>]\<rparr>))"

definition create_document_innings :: "database \<Rightarrow> Innings \<Rightarrow> ObjectId \<Rightarrow> string \<times> database" where
  "create_document_innings db i new_id =
     (str_ObjectId new_id,
      called (InsertOne ''innings'')
        (db\<lparr>innings_coll := innings_coll db @
           [\<lparr>player_id = player_id i, runs = runs i, balls = balls i, fours = fours i,
             sixes = sixes i, out = out i, opposition = opposition i, venue = venue i,
             date = date i, innings_oid = new_id\<rparr>]\<rparr>))"

subsection \<open>Responses\<close>

text \<open>
  The values the handlers return: dicts (with their keys in insertion order), lists,
  strings, ints, floats, booleans and \<^verbatim>\<open>None\<close>. The export endpoint wraps its result
  in a \<^verbatim>\<open>JSONResponse\<close> or in a \<^verbatim>\<open>StreamingResponse\<close>, whose body is kept here as the
  rows handed to the CSV writer, with the media type and the headers.
\<close>

datatype json =
  JNone | JBool bool | JInt int | JFloat rat | JStr string
  | JList "json list" | JDict "(string \<times> json) list"

datatype response =
  JSONResponse json
  | StreamingResponse "json list list" string "(string \<times> string) list"

definition opt_str :: "string option \<Rightarrow> json" where
  "opt_str s = (case s of None \<Rightarrow> JNone | Some v \<Rightarrow> JStr v)"

text \<open>\<^verbatim>\<open>d.get(k)\<close> on a dict value.\<close>

definition dict_get :: "json \<Rightarrow> string \<Rightarrow> json option" where
  "dict_get d k = (case d of JDict kvs \<Rightarrow> map_of kvs k | _ \<Rightarrow> None)"

subsection \<open>Players endpoints\<close>

text \<open>
  \<^verbatim>\<open>
  def create_player(payload: CreatePlayerRequest):
      player_id = create_document("player", payload)
      return {"_id": player_id, "name": payload.name, "role": payload.role}
  \<close>
\<close>

definition create_player :: "database \<Rightarrow> Player \<Rightarrow> ObjectId \<Rightarrow> (error + json) \<times> database" where
  "create_player db payload new_id =
     (let (pid, db1) = create_document_player db payload new_id
      in (Inr (JDict [(''_id'', JStr pid), (''name'', JStr (name payload)),
                      (''role'', opt_str (role payload))]), db1))"

text \<open>
  The body of the loop of \<^verbatim>\<open>list_players\<close> for one player document \<open>p\<close>, and the loop
  over the documents.
\<close>

definition player_summary :: "database \<Rightarrow> player_doc \<Rightarrow> json \<times> database" where
  "player_summary db p =
     (let pid = str_ObjectId (player_oid p);
          (agg, db1) = aggregate_innings db pid;
          stats = next_or_default agg;
          total_runs = st_runs stats;
          total_balls = st_balls stats
      in (JDict [(''_id'', JStr pid),
                 (''name'', JStr (name p)),
                 (''role'', opt_str (role p)),
                 (''total_runs'', JInt total_runs),
                 (''total_balls'', JInt total_balls),
                 (''total_fours'', JInt (st_fours stats)),
                 (''total_sixes'', JInt (st_sixes stats)),
                 (''innings_count'', JInt (st_innings stats)),
                 (''strike_rate'', JFloat (strike_rate total_runs total_balls))], db1))"

fun player_summaries :: "database \<Rightarrow> player_doc list \<Rightarrow> json list \<times> database" where
  "player_summaries db [] = ([], db)"
| "player_summaries db (p # ps) =
     (let (entry, db1) = player_summary db p;
          (result, db2) = player_summaries db1 ps
      in (entry # result, db2))"

definition list_players :: "database \<Rightarrow> json \<times> database" where
  "list_players db =
     (let (players, db1) = get_documents_player db;
          (result, db2) = player_summaries db1 players
      in (JList result, db2))"

text \<open>
  The loop of \<^verbatim>\<open>get_player\<close> over the innings: \<^verbatim>\<open>_id\<close> becomes its string, the strike
  rate of the innings is added, and a date becomes its ISO string.
\<close>

definition date_json :: "datetime option \<Rightarrow> json" where
  "date_json d = (case d of None \<Rightarrow> JNone | Some t \<Rightarrow> JStr (isoformat t))"

definition innings_fields :: "innings_doc \<Rightarrow> (string \<times> json) list" where
  "innings_fields inn =
     [(''_id'', JStr (str_ObjectId (innings_oid inn))),
      (''player_id'', JStr (player_id inn)),
      (''runs'', JInt (runs inn)),
      (''balls'', JInt (balls inn)),
      (''fours'', JInt (fours inn)),
      (''sixes'', JInt (sixes inn)),
      (''out'', JBool (out inn)),
      (''opposition'', opt_str (opposition inn)),
      (''venue'', opt_str (venue inn)),
      (''date'', date_json (date inn))]"

definition innings_detail :: "innings_doc \<Rightarrow> json" where
  "innings_detail inn =
     JDict (innings_fields inn @ [(''strike_rate'', JFloat (strike_rate (runs inn) (balls inn)))])"

definition career :: "stats \<Rightarrow> json" where
  "career stats =
     (let total_runs = st_runs stats; total_balls = st_balls stats
      in JDict [(''total_runs'', JInt total_runs),
                (''total_balls'', JInt total_balls),
                (''total_fours'', JInt (st_fours stats)),
                (''total_sixes'', JInt (st_sixes stats)),
                (''innings_count'', JInt (st_innings stats)),
                (''strike_rate'', JFloat (strike_rate total_runs total_balls))])"

definition not_found :: error where
  "not_found = HTTPException 404 ''Player not found''"

definition get_player :: "database \<Rightarrow> string \<Rightarrow> (error + json) \<times> database" where
  "get_player db pid =
     (case to_object_id pid of
        Inl e \<Rightarrow> (Inl e, db)
      | Inr obj_id \<Rightarrow>
          (case find_one_player db obj_id of
             (None, db1) \<Rightarrow> (Inl not_found, db1)
           | (Some p, db1) \<Rightarrow>
               (let (inns, db2) = find_innings db1 pid (- 1);
                    innings = map innings_detail inns;
                    (agg, db3) = aggregate_innings db2 pid;
                    stats = next_or_default agg
                in (Inr (JDict [(''_id'', JStr (str_ObjectId (player_oid p))),
                                (''name'', JStr (name p)),
                                (''role'', opt_str (role p)),
                                (''innings'', JList innings),
                                (''career'', career stats)]), db3))))"

subsection \<open>Innings endpoint\<close>

text \<open>
  \<^verbatim>\<open>add_innings\<close>; \<open>now\<close> is the value of \<^verbatim>\<open>datetime.now(timezone.utc)\<close> and \<open>new_id\<close>
  the identifier the store generates.
\<close>

definition add_innings ::
  "database \<Rightarrow> Innings \<Rightarrow> datetime \<Rightarrow> ObjectId \<Rightarrow> (error + json) \<times> database" where
  "add_innings db payload now new_id =
     (case to_object_id (player_id payload) of
        Inl e \<Rightarrow> (Inl e, db)
      | Inr obj_id \<Rightarrow>
          (case find_one_player db obj_id of
             (None, db1) \<Rightarrow> (Inl not_found, db1)
           | (Some player, db1) \<Rightarrow>
               (let data = (case date payload of
                              None \<Rightarrow> payload\<lparr>date := Some now\<rparr>
                            | Some d \<Rightarrow> payload);
                    (new, db2) = create_document_innings db1 data new_id
                in (Inr (JDict [(''_id'', JStr new)]), db2))))"

text \<open>
  The two POST routes as FastAPI serves them: the body is validated against the model of
  the handler's parameter, and the handler runs only on a valid body.
\<close>

definition post_players :: "database \<Rightarrow> Player \<Rightarrow> ObjectId \<Rightarrow> (error + json) \<times> database" where
  "post_players db body new_id =
     (if Player_valid body then create_player db body new_id
      else (Inl RequestValidationError, db))"

definition post_innings ::
  "database \<Rightarrow> Innings \<Rightarrow> datetime \<Rightarrow> ObjectId \<Rightarrow> (error + json) \<times> database" where
  "post_innings db body now new_id =
     (if Innings_valid body then add_innings db body now new_id
      else (Inl RequestValidationError, db))"

subsection \<open>Export endpoint\<close>

definition export_innings_json :: "innings_doc \<Rightarrow> json" where
  "export_innings_json inn = JDict (innings_fields inn)"

definition csv_header :: "json list" where
  "csv_header = map JStr [''Date'', ''Opposition'', ''Venue'', ''Runs'', ''Balls'', ''4s'', ''6s'',
     ''Out'', ''Strike Rate'']"

definition csv_row :: "innings_doc \<Rightarrow> json list" where
  "csv_row inn =
     [JStr (case date inn of Some d \<Rightarrow> strftime_Ymd d | None \<Rightarrow> []),
      opt_str (opposition inn),
      opt_str (venue inn),
      JInt (runs inn),
      JInt (balls inn),
      JInt (fours inn),
      JInt (sixes inn),
      JStr (if out inn then ''Out'' else ''Not Out''),
      JFloat (strike_rate (runs inn) (balls inn))]"

definition export_player ::
  "database \<Rightarrow> string \<Rightarrow> string option \<Rightarrow> (error + response) \<times> database" where
  "export_player db pid format =
     (case to_object_id pid of
        Inl e \<Rightarrow> (Inl e, db)
      | Inr obj_id \<Rightarrow>
          (case find_one_player db obj_id of
             (None, db1) \<Rightarrow> (Inl not_found, db1)
           | (Some p, db1) \<Rightarrow>
               (let (innings, db2) = find_innings db1 pid 1
                in if format = Some ''json''
                   then (Inr (JSONResponse (JDict
                          [(''player'', JDict [(''_id'', JStr (str_ObjectId (player_oid p))),
                                               (''name'', JStr (name p)),
                                               (''role'', opt_str (role p))]),
                           (''innings'', JList (map export_innings_json innings))])), db2)
                   else (Inr (StreamingResponse (csv_header # map csv_row innings) ''text/csv''
                          [(''Content-Disposition'',
                            ''attachment; filename='' @ name p @ ''_career.csv'')]), db2))))"

subsection \<open>The spec's reading and its test scenarios\<close>

text \<open>
  The career aggregate in the spec's words: the sums of runs, balls, fours and sixes over a
  set of innings records, their number, and the strike rate of the summed runs and balls.
\<close>

definition totals :: "innings_doc list \<Rightarrow> (string \<times> json) list" where
  "totals ms =
     [(''total_runs'', JInt (sum_list (map runs ms))),
      (''total_balls'', JInt (sum_list (map balls ms))),
      (''total_fours'', JInt (sum_list (map fours ms))),
      (''total_sixes'', JInt (sum_list (map sixes ms))),
      (''innings_count'', JInt (int (length ms))),
      (''strike_rate'',
         JFloat (strike_rate (sum_list (map runs ms)) (sum_list (map balls ms))))]"

text \<open>The player's own attributes, as every view returns them.\<close>

definition attributes :: "player_doc \<Rightarrow> (string \<times> json) list" where
  "attributes p =
     [(''_id'', JStr (str_ObjectId (player_oid p))),
      (''name'', JStr (name p)),
      (''role'', opt_str (role p))]"

text \<open>The innings records of the store that carry a given player reference.\<close>

definition innings_of :: "database \<Rightarrow> string \<Rightarrow> innings_doc list" where
  "innings_of db pid = filter (\<lambda>i. player_id i = pid) (innings_coll db)"

text \<open>
  A store with three players. The first has the two innings of the aggregation scenario
  (50 off 40 and 30 off 20), the second has none, and the third has three innings dated
  2023-01-01, 2023-06-01 and 2023-03-01, stored in that order.
\<close>

definition key :: "nat \<Rightarrow> ObjectId" where
  "key n = ObjectId [0, 0, 0, 0, 0, 0, 0, 0, 0, 0, 0, n]"

definition on_day :: "nat \<Rightarrow> nat \<Rightarrow> nat \<Rightarrow> datetime" where
  "on_day y m d = \<lparr>year = y, month = m, day = d, hour = 0, minute = 0, second = 0, microsecond = 0\<rparr>"

definition batting ::
  "nat \<Rightarrow> string \<Rightarrow> int \<Rightarrow> int \<Rightarrow> datetime option \<Rightarrow> innings_doc" where
  "batting n pid r b d =
     \<lparr>player_id = pid, runs = r, balls = b, fours = 0, sixes = 0, out = True,
      opposition = None, venue = None, date = d, innings_oid = key n\<rparr>"

definition example_db :: database where
  "example_db =
     \<lparr>player_coll =
        [\<lparr>name = ''Asha'', role = Some ''Batter'', player_oid = key 161\<rparr>,
         \<lparr>name = ''Bela'', role = None, player_oid = key 178\<rparr>,
         \<lparr>name = ''Chen'', role = Some ''Keeper'', player_oid = key 195\<rparr>],
      innings_coll =
        [batting 1 ''0000000000000000000000a1'' 50 40 (Some (on_day 2024 5 1)),
         batting 2 ''0000000000000000000000c3'' 10 10 (Some (on_day 2023 1 1)),
         batting 3 ''0000000000000000000000c3'' 20 10 (Some (on_day 2023 6 1)),
         batting 4 ''0000000000000000000000a1'' 30 20 (Some (on_day 2024 5 2)),
         batting 5 ''0000000000000000000000c3'' 15 10 (Some (on_day 2023 3 1))],
      calls = []\<rparr>"

text \<open>A request body for the innings route, with the optional fields at their defaults.\<close>

definition innings_body :: "string \<Rightarrow> int \<Rightarrow> int \<Rightarrow> Innings" where
  "innings_body pid r b =
     \<lparr>player_id = pid, runs = r, balls = b, fours = 0, sixes = 0, out = True,
      opposition = None, venue = None, date = None\<rparr>"

text \<open>
  The export view in the spec's words: the same data as the detail view, with the innings
  sorted ascending by date.
\<close>

definition export_view_spec :: "database \<Rightarrow> string \<Rightarrow> error + json" where
  "export_view_spec db pid =
     (case to_object_id pid of
        Inl e \<Rightarrow> Inl e
      | Inr obj_id \<Rightarrow>
          (case find (\<lambda>p. player_oid p = obj_id) (player_coll db) of
             None \<Rightarrow> Inl not_found
           | Some p \<Rightarrow>
               Inr (JDict (attributes p @
                      [(''innings'',
                          JList (map innings_detail (sort_key date_key (innings_of db pid)))),
                       (''career'', JDict (totals (innings_of db pid)))]))))"

text \<open>
  A stored player reference is in string form when it is the \<^verbatim>\<open>str\<close> of the identifier
  it parses to.
\<close>

definition string_form :: "string \<Rightarrow> bool" where
  "string_form s = (case ObjectId_new s of Some oid \<Rightarrow> str_ObjectId oid = s | None \<Rightarrow> False)"

text \<open>The dates of the innings in a detail response and in an export response, in order.\<close>

definition innings_dates :: "json \<Rightarrow> json option list" where
  "innings_dates r =
     (case dict_get r ''innings'' of
        Some (JList inns) \<Rightarrow> map (\<lambda>inn. dict_get inn ''date'') inns
      | _ \<Rightarrow> [])"

definition export_dates :: "response \<Rightarrow> json option list" where
  "export_dates x =
     (case x of
        JSONResponse e \<Rightarrow> innings_dates e
      | StreamingResponse rows media headers \<Rightarrow> map (\<lambda>row. Some (hd row)) (tl rows))"

section \<open>Properties\<close>

subsection \<open>Rounding\<close>






subsection \<open>Accuracy of the float operations\<close>







subsection \<open>Identifiers\<close>

lemma hex_table:
  "zip ''0123456789abcdef'' [0..<16] @ zip ''ABCDEF'' [10..<16] =
   [(CHR ''0'', 0), (CHR ''1'', 1), (CHR ''2'', 2), (CHR ''3'', 3), (CHR ''4'', 4),
    (CHR ''5'', 5), (CHR ''6'', 6), (CHR ''7'', 7), (CHR ''8'', 8), (CHR ''9'', 9),
    (CHR ''a'', 10), (CHR ''b'', 11), (CHR ''c'', 12), (CHR ''d'', 13), (CHR ''e'', 14),
    (CHR ''f'', 15), (CHR ''A'', 10), (CHR ''B'', 11), (CHR ''C'', 12), (CHR ''D'', 13),
    (CHR ''E'', 14), (CHR ''F'', 15 :: nat)]"
  by code_simp

lemma hex_value_Some_iff: "(\<exists>v. hex_value c = Some v) \<longleftrightarrow> hex_char c"
  unfolding hex_value_def hex_table hex_char_def by auto

lemma hex_value_less: "hex_value c = Some v \<Longrightarrow> v < 16"
  unfolding hex_value_def hex_table by (auto split: if_splits)

lemma less_16_cases:
  "(d::nat) < 16 \<Longrightarrow> d = 0 \<or> d = 1 \<or> d = 2 \<or> d = 3 \<or> d = 4 \<or> d = 5 \<or> d = 6 \<or> d = 7
     \<or> d = 8 \<or> d = 9 \<or> d = 10 \<or> d = 11 \<or> d = 12 \<or> d = 13 \<or> d = 14 \<or> d = 15"
  by arith

lemma hex_value_hex_digit: "d < 16 \<Longrightarrow> hex_value (hex_digit d) = Some d"
  unfolding hex_value_def hex_table hex_digit_def
  by (drule less_16_cases) (elim disjE, simp_all)

lemma those_map_Some_iff:
  "(\<exists>vs. those (map f xs) = Some vs) \<longleftrightarrow> list_all (\<lambda>x. \<exists>v. f x = Some v) xs"
  by (induction xs) (auto split: option.splits)

lemma ObjectId_new_Some_iff: "(\<exists>oid. ObjectId_new s = Some oid) \<longleftrightarrow> well_formed_key s"
proof -
  have "(\<exists>vs. those (map hex_value s) = Some vs) \<longleftrightarrow> list_all hex_char s"
    by (simp add: those_map_Some_iff hex_value_Some_iff)
  then show ?thesis
    by (auto simp: ObjectId_new_def well_formed_key_def split: option.splits)
qed


lemma those_nibbles:
  "list_all (\<lambda>b. b < 256) bs \<Longrightarrow>
   those (map hex_value (concat (map (\<lambda>b. [hex_digit (b div 16), hex_digit (b mod 16)]) bs)))
     = Some (concat (map (\<lambda>b. [b div 16, b mod 16]) bs))"
proof (induction bs)
  case Nil
  then show ?case by simp
next
  case (Cons b bs)
  then have "b < 256" by simp
  then have "b div 16 < 16" "b mod 16 < 16" by arith+
  then show ?case using Cons by (simp add: hex_value_hex_digit)
qed

lemma bytes_of_nibbles_concat:
  "bytes_of_nibbles (concat (map (\<lambda>b. [b div 16, b mod 16]) bs)) = bs"
  by (induction bs) simp_all

lemma length_str_ObjectId: "length (str_ObjectId oid) = 2 * length (binary oid)"
  by (simp add: str_ObjectId_def length_concat comp_def sum_list_triv)

lemma ObjectId_roundtrip:
  assumes "valid_oid oid"
  shows "ObjectId_new (str_ObjectId oid) = Some oid"
proof -
  from assms have len: "length (binary oid) = 12" and bs: "list_all (\<lambda>b. b < 256) (binary oid)"
    by (simp_all add: valid_oid_def)
  have "those (map hex_value (str_ObjectId oid))
      = Some (concat (map (\<lambda>b. [b div 16, b mod 16]) (binary oid)))"
    unfolding str_ObjectId_def by (rule those_nibbles [OF bs])
  then show ?thesis
    by (simp add: ObjectId_new_def length_str_ObjectId len bytes_of_nibbles_concat)
qed

lemma to_object_id_roundtrip: "valid_oid oid \<Longrightarrow> to_object_id (str_ObjectId oid) = Inr oid"
  by (simp add: to_object_id_def ObjectId_roundtrip)


lemma to_object_id_Inr_iff: "(\<exists>oid. to_object_id s = Inr oid) \<longleftrightarrow> well_formed_key s"
  using ObjectId_new_Some_iff [of s] by (auto simp: to_object_id_def split: option.splits)

lemma canonical_fixed:
  assumes "s = str_ObjectId oid" "valid_oid oid" "to_object_id s = Inr oid'"
  shows "str_ObjectId oid' = s"
  using assms by (simp add: to_object_id_roundtrip)

subsection \<open>Store lookups\<close>

lemma find_one_player_None:
  "\<forall>p\<in>set (player_coll db). player_oid p \<noteq> oid \<Longrightarrow>
   find_one_player db oid = (None, called (FindOne ''player'') db)"
  by (simp add: find_one_player_def find_None_iff)

lemma to_object_id_well_formed:
  "well_formed_key s \<Longrightarrow> \<exists>oid. to_object_id s = Inr oid"
  by (simp add: to_object_id_Inr_iff)

subsection \<open>The views on a stored player\<close>

lemma called_simps [simp]:
  "innings_coll (called c db) = innings_coll db"
  "player_coll (called c db) = player_coll db"
  "calls (called c db) = calls db @ [c]"
  by (simp_all add: called_def)

lemma innings_of_called [simp]: "innings_of (called c db) pid = innings_of db pid"
  by (simp add: innings_of_def)

lemma find_innings_eq:
  "find_innings db pid direction
     = (sort_by_date direction (innings_of db pid), called (Find ''innings'') db)"
  by (simp add: find_innings_def innings_of_def)

lemma aggregate_innings_eq:
  "aggregate_innings db pid
     = (if innings_of db pid = [] then []
        else [\<lparr>st_id = Some pid,
               st_runs = sum_list (map runs (innings_of db pid)),
               st_balls = sum_list (map balls (innings_of db pid)),
               st_fours = sum_list (map fours (innings_of db pid)),
               st_sixes = sum_list (map sixes (innings_of db pid)),
               st_innings = int (length (innings_of db pid))\<rparr>],
        called (Aggregate ''innings'') db)"
  by (simp add: aggregate_innings_def innings_of_def Let_def)

lemma career_aggregate:
  "career (next_or_default (fst (aggregate_innings db pid))) = JDict (totals (innings_of db pid))"
  by (simp add: aggregate_innings_eq next_or_default_def career_def totals_def Let_def)

lemma get_player_found:
  assumes "to_object_id pid = Inr oid"
    and "find (\<lambda>p. player_oid p = oid) (player_coll db) = Some p"
  shows "get_player db pid =
     (Inr (JDict (attributes p @
            [(''innings'', JList (map innings_detail (sort_by_date (- 1) (innings_of db pid)))),
             (''career'', JDict (totals (innings_of db pid)))])),
      called (Aggregate ''innings'') (called (Find ''innings'') (called (FindOne ''player'') db)))"
proof -
  have c: "career (next_or_default (fst (aggregate_innings (called (Find ''innings'')
             (called (FindOne ''player'') db)) pid))) = JDict (totals (innings_of db pid))"
    by (simp add: career_aggregate)
  have s: "snd (aggregate_innings d pid) = called (Aggregate ''innings'') d" for d
    by (simp add: aggregate_innings_eq)
  show ?thesis
    using assms c
    by (simp add: get_player_def find_one_player_def find_innings_eq attributes_def
        split_beta Let_def s)
qed

lemma export_player_found:
  assumes "to_object_id pid = Inr oid"
    and "find (\<lambda>p. player_oid p = oid) (player_coll db) = Some p"
  shows "export_player db pid fmt =
     (Inr (if fmt = Some ''json''
           then JSONResponse (JDict
                  [(''player'', JDict (attributes p)),
                   (''innings'', JList (map export_innings_json (sort_by_date 1 (innings_of db pid))))])
           else StreamingResponse (csv_header # map csv_row (sort_by_date 1 (innings_of db pid)))
                  ''text/csv''
                  [(''Content-Disposition'', ''attachment; filename='' @ name p @ ''_career.csv'')]),
      called (Find ''innings'') (called (FindOne ''player'') db))"
  using assms
  by (simp add: export_player_def find_one_player_def find_innings_eq attributes_def)

lemma mset_sort_by_date: "mset (sort_by_date direction ms) = mset ms"
  by (simp add: sort_by_date_def)

lemma sorted_ascending: "sorted (map date_key (sort_by_date 1 ms))"
  by (simp add: sort_by_date_def)

lemma sorted_descending: "sorted (rev (map date_key (sort_by_date (- 1) ms)))"
  by (simp add: sort_by_date_def rev_map)

lemma player_summary_eq:
  "player_summary db p =
     (JDict (attributes p @ totals (innings_of db (str_ObjectId (player_oid p)))),
      called (Aggregate ''innings'') db)"
proof -
  have "career (next_or_default (fst (aggregate_innings db (str_ObjectId (player_oid p)))))
      = JDict (totals (innings_of db (str_ObjectId (player_oid p))))"
    by (rule career_aggregate)
  then show ?thesis
    by (simp add: player_summary_def attributes_def career_def totals_def Let_def split_beta
        aggregate_innings_eq)
qed

lemma player_summaries_fst:
  "fst (player_summaries db ps)
     = map (\<lambda>p. JDict (attributes p @ totals (innings_of db (str_ObjectId (player_oid p))))) ps"
proof (induction ps arbitrary: db)
  case Nil
  then show ?case by simp
next
  case (Cons p ps)
  have "fst (player_summaries (called (Aggregate ''innings'') db) ps)
     = map (\<lambda>p. JDict (attributes p @ totals (innings_of db (str_ObjectId (player_oid p))))) ps"
    using Cons.IH [of "called (Aggregate ''innings'') db"] by simp
  then show ?case
    by (simp add: player_summary_eq split_beta)
qed

lemma list_players_fst:
  "fst (list_players db)
     = JList (map (\<lambda>p. JDict (attributes p @ totals (innings_of db (str_ObjectId (player_oid p)))))
         (player_coll db))"
  by (simp add: list_players_def get_documents_player_def split_beta player_summaries_fst)

lemma find_player_in_store:
  "p \<in> set (player_coll db) \<Longrightarrow> \<exists>q. find (\<lambda>q. player_oid q = player_oid p) (player_coll db) = Some q"
  by (cases "find (\<lambda>q. player_oid q = player_oid p) (player_coll db)")
     (auto simp: find_None_iff)

lemma dict_get_career:
  "dict_get (JDict (attributes p @ [(''innings'', x), (''career'', y)])) ''career'' = Some y"
  by (simp add: dict_get_def attributes_def)

lemma dict_get_innings:
  "dict_get (JDict (attributes p @ [(''innings'', x), (''career'', y)])) ''innings'' = Some x"
  by (simp add: dict_get_def attributes_def)

lemma dict_get_id:
  "dict_get (JDict (attributes p @ kvs)) ''_id'' = Some (JStr (str_ObjectId (player_oid p)))"
  by (simp add: dict_get_def attributes_def)

subsection \<open>Spellings of a key\<close>

lemma string_form_differs:
  assumes "to_object_id raw = Inr oid" "raw \<noteq> str_ObjectId oid" "string_form s"
  shows "s \<noteq> raw"
  using assms by (auto simp: string_form_def to_object_id_def split: option.splits)

lemma string_form_str: "valid_oid oid \<Longrightarrow> string_form (str_ObjectId oid)"
  by (simp add: string_form_def ObjectId_roundtrip)

lemma no_innings_under_raw:
  assumes "to_object_id raw = Inr oid" "raw \<noteq> str_ObjectId oid"
    and "\<forall>i\<in>set (innings_coll db). string_form (player_id i)"
  shows "innings_of db raw = []"
  using assms string_form_differs [OF assms(1,2)]
  by (auto simp: innings_of_def filter_empty_conv)

lemma sort_by_date_Nil: "sort_by_date direction [] = []"
  by (simp add: sort_by_date_def)

subsection \<open>The export view of the spec\<close>

text \<open>
  The export view of the spec is the detail view with the innings in ascending order, and
  fails as the detail view does.
\<close>

lemma export_view_spec_found:
  assumes "to_object_id pid = Inr oid"
    and "find (\<lambda>p. player_oid p = oid) (player_coll db) = Some p"
  shows "export_view_spec db pid =
     Inr (JDict (attributes p @
            [(''innings'', JList (map innings_detail (sort_by_date 1 (innings_of db pid)))),
             (''career'', JDict (totals (innings_of db pid)))]))"
  using assms by (simp add: export_view_spec_def sort_by_date_def)

lemma export_view_spec_error:
  "export_view_spec db pid = Inl e \<longleftrightarrow> fst (get_player db pid) = Inl e"
proof (cases "to_object_id pid")
  case (Inl a)
  then show ?thesis by (simp add: export_view_spec_def get_player_def)
next
  case (Inr oid)
  show ?thesis
  proof (cases "find (\<lambda>p. player_oid p = oid) (player_coll db)")
    case None
    then show ?thesis
      using Inr by (simp add: export_view_spec_def get_player_def find_one_player_def)
  next
    case (Some p)
    then show ?thesis
      using Inr by (simp add: export_view_spec_found get_player_found)
  qed
qed

subsection \<open>Aggregation\<close>

text \<open>
  C1. For every player of the store, the career aggregate that \<open>get_player\<close> returns for
  the player's key, and the entry of the player in the result of \<open>list_players\<close>, carry
  the sums of runs, balls, fours and sixes over the innings records that reference the
  player, the number of these records, and the strike rate of the summed runs and balls.
  With no innings every total and the count are 0 and the strike rate is 0.0; with the two
  innings 50 off 40 and 30 off 20 the totals are 80 runs and 60 balls and the strike rate
  is 133.33.
\<close>

theorem career_aggregate_sums:
  "(\<forall>p\<in>set (player_coll db). valid_oid (player_oid p) \<longrightarrow>
      (\<exists>r. fst (get_player db (str_ObjectId (player_oid p))) = Inr r
         \<and> dict_get r ''career''
             = Some (JDict (totals (innings_of db (str_ObjectId (player_oid p)))))))
   \<and> fst (list_players db)
       = JList (map (\<lambda>p. JDict (attributes p
                                  @ totals (innings_of db (str_ObjectId (player_oid p)))))
           (player_coll db))
   \<and> totals []
       = [(''total_runs'', JInt 0), (''total_balls'', JInt 0), (''total_fours'', JInt 0),
          (''total_sixes'', JInt 0), (''innings_count'', JInt 0), (''strike_rate'', JFloat 0)]
   \<and> (\<forall>ms. map runs ms = [50, 30] \<and> map balls ms = [40, 20] \<longrightarrow>
         map_of (totals ms) ''total_runs'' = Some (JInt 80)
       \<and> map_of (totals ms) ''total_balls'' = Some (JInt 60)
       \<and> map_of (totals ms) ''innings_count'' = Some (JInt 2)
       \<and> map_of (totals ms) ''strike_rate'' = Some (JFloat (binary64 (13333 / 100))))"
proof (intro conjI ballI allI impI)
  fix p
  assume p: "p \<in> set (player_coll db)" and v: "valid_oid (player_oid p)"
  from p obtain q where q: "find (\<lambda>q. player_oid q = player_oid p) (player_coll db) = Some q"
    using find_player_in_store by blast
  have k: "to_object_id (str_ObjectId (player_oid p)) = Inr (player_oid p)"
    using v by (rule to_object_id_roundtrip)
  show "\<exists>r. fst (get_player db (str_ObjectId (player_oid p))) = Inr r
         \<and> dict_get r ''career''
             = Some (JDict (totals (innings_of db (str_ObjectId (player_oid p)))))"
    by (simp add: get_player_found [OF k q] dict_get_career)
next
  show "fst (list_players db)
       = JList (map (\<lambda>p. JDict (attributes p
                                  @ totals (innings_of db (str_ObjectId (player_oid p)))))
           (player_coll db))"
    by (rule list_players_fst)
next
  show "totals []
       = [(''total_runs'', JInt 0), (''total_balls'', JInt 0), (''total_fours'', JInt 0),
          (''total_sixes'', JInt 0), (''innings_count'', JInt 0), (''strike_rate'', JFloat 0)]"
    by (simp add: totals_def strike_rate_def)
next
  fix ms :: "innings_doc list"
  assume h: "map runs ms = [50, 30] \<and> map balls ms = [40, 20]"
  have sr: "strike_rate 80 60 = binary64 (13333 / 100)" by code_simp
  from h have "length (map runs ms) = 2" by simp
  then have len: "length ms = 2" by simp
  {
    show "map_of (totals ms) ''total_runs'' = Some (JInt 80)" using h by (simp add: totals_def)
    show "map_of (totals ms) ''total_balls'' = Some (JInt 60)" using h by (simp add: totals_def)
    show "map_of (totals ms) ''innings_count'' = Some (JInt 2)" using len by (simp add: totals_def)
    show "map_of (totals ms) ''strike_rate'' = Some (JFloat (binary64 (13333 / 100)))"
      using h by (simp add: totals_def sr)
  }
qed

text \<open>
  The example store: the first player has the two innings of the scenario, the second has
  none.
\<close>

theorem career_aggregate_sums_witness:
  "valid_oid (key 161) \<and> valid_oid (key 178)
   \<and> map_sum id (\<lambda>r. dict_get r ''career'') (fst (get_player example_db ''0000000000000000000000a1''))
       = Inr (Some (JDict [(''total_runs'', JInt 80), (''total_balls'', JInt 60),
            (''total_fours'', JInt 0), (''total_sixes'', JInt 0), (''innings_count'', JInt 2),
            (''strike_rate'', JFloat (binary64 (13333 / 100)))]))
   \<and> map_sum id (\<lambda>r. dict_get r ''career'') (fst (get_player example_db ''0000000000000000000000b2''))
       = Inr (Some (JDict [(''total_runs'', JInt 0), (''total_balls'', JInt 0),
            (''total_fours'', JInt 0), (''total_sixes'', JInt 0), (''innings_count'', JInt 0),
            (''strike_rate'', JFloat 0)]))"
proof -
  have a: "\<lparr>name = ''Asha'', role = Some ''Batter'', player_oid = key 161\<rparr> \<in> set (player_coll example_db)"
    and b: "\<lparr>name = ''Bela'', role = None, player_oid = key 178\<rparr> \<in> set (player_coll example_db)"
    by (simp_all add: example_db_def)
  have va: "valid_oid (key 161)" and vb: "valid_oid (key 178)" by code_simp+
  have sa: "str_ObjectId (key 161) = ''0000000000000000000000a1''"
    and sb: "str_ObjectId (key 178) = ''0000000000000000000000b2''" by code_simp+
  have ta: "totals (innings_of example_db ''0000000000000000000000a1'')
      = [(''total_runs'', JInt 80), (''total_balls'', JInt 60),
            (''total_fours'', JInt 0), (''total_sixes'', JInt 0), (''innings_count'', JInt 2),
            (''strike_rate'', JFloat (binary64 (13333 / 100)))]" by code_simp
  have tb: "totals (innings_of example_db ''0000000000000000000000b2'')
      = [(''total_runs'', JInt 0), (''total_balls'', JInt 0),
            (''total_fours'', JInt 0), (''total_sixes'', JInt 0), (''innings_count'', JInt 0),
            (''strike_rate'', JFloat 0)]" by code_simp
  from career_aggregate_sums [of example_db, THEN conjunct1, rule_format, OF a] va
  obtain ra where "fst (get_player example_db ''0000000000000000000000a1'') = Inr ra"
    "dict_get ra ''career'' = Some (JDict (totals (innings_of example_db ''0000000000000000000000a1'')))"
    by (auto simp: sa)
  moreover
  from career_aggregate_sums [of example_db, THEN conjunct1, rule_format, OF b] vb
  obtain rb where "fst (get_player example_db ''0000000000000000000000b2'') = Inr rb"
    "dict_get rb ''career'' = Some (JDict (totals (innings_of example_db ''0000000000000000000000b2'')))"
    by (auto simp: sb)
  ultimately show ?thesis using va vb by (simp add: ta tb)
qed

subsection \<open>Strike rate\<close>

text \<open>
  C2. For every number of runs and every \<open>balls \<le> 0\<close>, \<open>strike_rate\<close> returns exactly
  \<open>0.0\<close>; no error is raised, also when runs are positive and balls are zero.
\<close>

theorem strike_rate_zero_balls:
  "b \<le> 0 \<Longrightarrow> strike_rate r b = 0"
  by (simp add: strike_rate_def)

text \<open>Zero and negative balls, with and without runs.\<close>

theorem strike_rate_zero_balls_witness:
  "(0::int) \<le> 0 \<and> strike_rate 7 0 = 0 \<and> strike_rate 0 0 = 0 \<and> strike_rate 7 (- 3) = 0"
  using strike_rate_zero_balls [of 0 7] strike_rate_zero_balls [of 0 0]
    strike_rate_zero_balls [of "- 3" 7]
  by simp

subsection \<open>Order of the innings\<close>

text \<open>
  C3. For every stored player, \<open>get_player\<close> returns the player's innings in descending
  order of date and \<open>export_player\<close>, in both formats, returns the same innings in
  ascending order of date. For the player of the example store with innings dated
  2023-01-01, 2023-06-01 and 2023-03-01, the detail view lists 2023-06-01, 2023-03-01,
  2023-01-01 and the export lists 2023-01-01, 2023-03-01, 2023-06-01.
\<close>

theorem innings_sort_order:
  "(\<forall>pid oid p. to_object_id pid = Inr oid
        \<and> find (\<lambda>p. player_oid p = oid) (player_coll db) = Some p \<longrightarrow>
      (\<exists>r e hs descending ascending.
          fst (get_player db pid) = Inr r
        \<and> dict_get r ''innings'' = Some (JList (map innings_detail descending))
        \<and> fst (export_player db pid (Some ''json'')) = Inr (JSONResponse e)
        \<and> dict_get e ''innings'' = Some (JList (map export_innings_json ascending))
        \<and> fst (export_player db pid None)
            = Inr (StreamingResponse (csv_header # map csv_row ascending) ''text/csv'' hs)
        \<and> mset descending = mset (innings_of db pid)
        \<and> mset ascending = mset (innings_of db pid)
        \<and> sorted (rev (map date_key descending))
        \<and> sorted (map date_key ascending)))
   \<and> map_sum id innings_dates (fst (get_player example_db ''0000000000000000000000c3''))
       = Inr [Some (JStr ''2023-06-01T00:00:00''), Some (JStr ''2023-03-01T00:00:00''),
              Some (JStr ''2023-01-01T00:00:00'')]
   \<and> map_sum id export_dates (fst (export_player example_db ''0000000000000000000000c3'' (Some ''json'')))
       = Inr [Some (JStr ''2023-01-01T00:00:00''), Some (JStr ''2023-03-01T00:00:00''),
              Some (JStr ''2023-06-01T00:00:00'')]
   \<and> map_sum id export_dates (fst (export_player example_db ''0000000000000000000000c3'' None))
       = Inr [Some (JStr ''2023-01-01''), Some (JStr ''2023-03-01''), Some (JStr ''2023-06-01'')]"
proof (intro conjI allI impI)
  fix pid oid p
  assume "to_object_id pid = Inr oid \<and> find (\<lambda>p. player_oid p = oid) (player_coll db) = Some p"
  then have k: "to_object_id pid = Inr oid"
    and f: "find (\<lambda>p. player_oid p = oid) (player_coll db) = Some p" by simp_all
  let ?d = "sort_by_date (- 1) (innings_of db pid)"
  let ?a = "sort_by_date 1 (innings_of db pid)"
  have "fst (get_player db pid)
          = Inr (JDict (attributes p @ [(''innings'', JList (map innings_detail ?d)),
                                        (''career'', JDict (totals (innings_of db pid)))]))"
    by (simp add: get_player_found [OF k f])
  moreover have "dict_get (JDict (attributes p @ [(''innings'', JList (map innings_detail ?d)),
                    (''career'', JDict (totals (innings_of db pid)))])) ''innings''
          = Some (JList (map innings_detail ?d))"
    by (rule dict_get_innings)
  moreover have "fst (export_player db pid (Some ''json''))
          = Inr (JSONResponse (JDict [(''player'', JDict (attributes p)),
                   (''innings'', JList (map export_innings_json ?a))]))"
    by (simp add: export_player_found [OF k f])
  moreover have "dict_get (JDict [(''player'', JDict (attributes p)),
                   (''innings'', JList (map export_innings_json ?a))]) ''innings''
          = Some (JList (map export_innings_json ?a))"
    by (simp add: dict_get_def)
  moreover have "fst (export_player db pid None)
          = Inr (StreamingResponse (csv_header # map csv_row ?a) ''text/csv''
               [(''Content-Disposition'', ''attachment; filename='' @ name p @ ''_career.csv'')])"
    by (simp add: export_player_found [OF k f])
  moreover have "mset ?d = mset (innings_of db pid)" "mset ?a = mset (innings_of db pid)"
    by (rule mset_sort_by_date)+
  moreover have "sorted (rev (map date_key ?d))" by (rule sorted_descending)
  moreover have "sorted (map date_key ?a)" by (rule sorted_ascending)
  ultimately show "\<exists>r e hs descending ascending.
          fst (get_player db pid) = Inr r
        \<and> dict_get r ''innings'' = Some (JList (map innings_detail descending))
        \<and> fst (export_player db pid (Some ''json'')) = Inr (JSONResponse e)
        \<and> dict_get e ''innings'' = Some (JList (map export_innings_json ascending))
        \<and> fst (export_player db pid None)
            = Inr (StreamingResponse (csv_header # map csv_row ascending) ''text/csv'' hs)
        \<and> mset descending = mset (innings_of db pid)
        \<and> mset ascending = mset (innings_of db pid)
        \<and> sorted (rev (map date_key descending))
        \<and> sorted (map date_key ascending)"
    by blast
next
  show "map_sum id innings_dates (fst (get_player example_db ''0000000000000000000000c3''))
       = Inr [Some (JStr ''2023-06-01T00:00:00''), Some (JStr ''2023-03-01T00:00:00''),
              Some (JStr ''2023-01-01T00:00:00'')]"
    by code_simp
next
  show "map_sum id export_dates (fst (export_player example_db ''0000000000000000000000c3'' (Some ''json'')))
       = Inr [Some (JStr ''2023-01-01T00:00:00''), Some (JStr ''2023-03-01T00:00:00''),
              Some (JStr ''2023-06-01T00:00:00'')]"
    by code_simp
next
  show "map_sum id export_dates (fst (export_player example_db ''0000000000000000000000c3'' None))
       = Inr [Some (JStr ''2023-01-01''), Some (JStr ''2023-03-01''), Some (JStr ''2023-06-01'')]"
    by code_simp
qed

text \<open>
  The third player of the example store, with its three innings.
\<close>

theorem innings_sort_order_witness:
  "to_object_id ''0000000000000000000000c3'' = Inr (key 195)
   \<and> find (\<lambda>p. player_oid p = key 195) (player_coll example_db)
       = Some \<lparr>name = ''Chen'', role = Some ''Keeper'', player_oid = key 195\<rparr>
   \<and> length (innings_of example_db ''0000000000000000000000c3'') = 3
   \<and> (\<exists>r e hs descending ascending.
          fst (get_player example_db ''0000000000000000000000c3'') = Inr r
        \<and> dict_get r ''innings'' = Some (JList (map innings_detail descending))
        \<and> fst (export_player example_db ''0000000000000000000000c3'' (Some ''json''))
            = Inr (JSONResponse e)
        \<and> dict_get e ''innings'' = Some (JList (map export_innings_json ascending))
        \<and> fst (export_player example_db ''0000000000000000000000c3'' None)
            = Inr (StreamingResponse (csv_header # map csv_row ascending) ''text/csv'' hs)
        \<and> mset descending = mset (innings_of example_db ''0000000000000000000000c3'')
        \<and> mset ascending = mset (innings_of example_db ''0000000000000000000000c3'')
        \<and> sorted (rev (map date_key descending))
        \<and> sorted (map date_key ascending))"
proof -
  have k: "to_object_id ''0000000000000000000000c3'' = Inr (key 195)" by code_simp
  have f: "find (\<lambda>p. player_oid p = key 195) (player_coll example_db)
       = Some \<lparr>name = ''Chen'', role = Some ''Keeper'', player_oid = key 195\<rparr>"
    by code_simp
  have n: "length (innings_of example_db ''0000000000000000000000c3'') = 3" by code_simp
  from innings_sort_order [of example_db, THEN conjunct1, rule_format, OF conjI, OF k f] k f n
  show ?thesis by blast
qed

subsection \<open>Contents of the export\<close>




subsection \<open>Error outcomes\<close>

text \<open>
  C5. For a well-formed key that no player document of the store carries, \<open>get_player\<close>
  fails with the 404 "Player not found": not a record, and not the 400 of a malformed
  key. The only call on the store is the lookup of the player; no innings are read or
  aggregated.
\<close>

theorem get_player_not_found:
  assumes "well_formed_key pid"
    and "\<forall>p\<in>set (player_coll db). to_object_id pid \<noteq> Inr (player_oid p)"
  shows "get_player db pid
           = (Inl (HTTPException 404 ''Player not found''), called (FindOne ''player'') db)
       \<and> calls (snd (get_player db pid)) = calls db @ [FindOne ''player'']
       \<and> HTTPException 404 ''Player not found'' \<noteq> HTTPException 400 ''Invalid ID format''"
proof -
  from assms(1) obtain oid where oid: "to_object_id pid = Inr oid"
    using to_object_id_well_formed by blast
  with assms(2) have "\<forall>p\<in>set (player_coll db). player_oid p \<noteq> oid" by auto
  then have "find_one_player db oid = (None, called (FindOne ''player'') db)"
    by (rule find_one_player_None)
  then have "get_player db pid
           = (Inl (HTTPException 404 ''Player not found''), called (FindOne ''player'') db)"
    by (simp add: get_player_def oid not_found_def)
  then show ?thesis by (simp add: called_def)
qed

text \<open>
  A well-formed key that names none of the three players of the example store.
\<close>

theorem get_player_not_found_witness:
  "well_formed_key ''0000000000000000000000ff''
   \<and> find (\<lambda>p. to_object_id ''0000000000000000000000ff'' = Inr (player_oid p))
         (player_coll example_db) = None
   \<and> fst (get_player example_db ''0000000000000000000000ff'')
       = Inl (HTTPException 404 ''Player not found'')
   \<and> calls (snd (get_player example_db ''0000000000000000000000ff'')) = [FindOne ''player'']"
proof -
  have wf: "well_formed_key ''0000000000000000000000ff''" by code_simp
  have no: "\<forall>p\<in>set (player_coll example_db). to_object_id ''0000000000000000000000ff'' \<noteq> Inr (player_oid p)"
    by code_simp
  have c: "calls example_db = []" by (simp add: example_db_def)
  from get_player_not_found [OF wf no] wf no show ?thesis
    by (simp add: c called_def find_None_iff)
qed

text \<open>
  C6. When the \<open>player_id\<close> of the payload is well formed but names no player,
  \<open>add_innings\<close> fails with the 404 "Player not found" after the lookup of the player
  alone: nothing is inserted, and both collections are as before. The route gives the same
  answer for a valid body.
\<close>

theorem add_innings_unknown_player:
  assumes "well_formed_key (player_id payload)"
    and "\<forall>p\<in>set (player_coll db). to_object_id (player_id payload) \<noteq> Inr (player_oid p)"
  shows "add_innings db payload now new_id
           = (Inl (HTTPException 404 ''Player not found''), called (FindOne ''player'') db)
       \<and> innings_coll (snd (add_innings db payload now new_id)) = innings_coll db
       \<and> player_coll (snd (add_innings db payload now new_id)) = player_coll db
       \<and> calls (snd (add_innings db payload now new_id)) = calls db @ [FindOne ''player'']
       \<and> (Innings_valid payload \<longrightarrow>
            post_innings db payload now new_id = add_innings db payload now new_id)"
proof -
  from assms(1) obtain oid where oid: "to_object_id (player_id payload) = Inr oid"
    using to_object_id_well_formed by blast
  with assms(2) have "\<forall>p\<in>set (player_coll db). player_oid p \<noteq> oid" by auto
  then have "find_one_player db oid = (None, called (FindOne ''player'') db)"
    by (rule find_one_player_None)
  then have "add_innings db payload now new_id
           = (Inl (HTTPException 404 ''Player not found''), called (FindOne ''player'') db)"
    by (simp add: add_innings_def oid not_found_def)
  then show ?thesis by (simp add: called_def post_innings_def)
qed

text \<open>
  An innings for a key that the example store does not hold.
\<close>

theorem add_innings_unknown_player_witness:
  "well_formed_key (player_id (innings_body ''0000000000000000000000ff'' 12 10))
   \<and> find (\<lambda>p. to_object_id (player_id (innings_body ''0000000000000000000000ff'' 12 10))
                 = Inr (player_oid p)) (player_coll example_db) = None
   \<and> fst (add_innings example_db (innings_body ''0000000000000000000000ff'' 12 10)
            (on_day 2024 6 1) (key 9))
       = Inl (HTTPException 404 ''Player not found'')
   \<and> innings_coll (snd (add_innings example_db
            (innings_body ''0000000000000000000000ff'' 12 10)
            (on_day 2024 6 1) (key 9)))
       = innings_coll example_db"
proof -
  have wf: "well_formed_key (player_id (innings_body ''0000000000000000000000ff'' 12 10))"
    by code_simp
  have no: "\<forall>p\<in>set (player_coll example_db).
         to_object_id (player_id (innings_body ''0000000000000000000000ff'' 12 10))
           \<noteq> Inr (player_oid p)"
    by code_simp
  from add_innings_unknown_player [OF wf no, of "on_day 2024 6 1" "key 9"] wf no
  show ?thesis by (simp add: called_def find_None_iff)
qed





text \<open>
  C9. A body for the innings route with runs or balls outside 0..400, fours or sixes
  outside 0..200 (negative counts included), or an opposition or venue longer than 100
  characters, and a body for the players route with an empty name or one longer than 100
  characters, is answered with the validation error, and the store is returned as it was.
\<close>

theorem validation_rejects_out_of_bounds:
  "(runs body < 0 \<or> 400 < runs body \<or> balls body < 0 \<or> 400 < balls body
      \<or> fours body < 0 \<or> 200 < fours body \<or> sixes body < 0 \<or> 200 < sixes body
      \<or> (\<exists>v. opposition body = Some v \<and> 100 < length v)
      \<or> (\<exists>v. venue body = Some v \<and> 100 < length v)
     \<longrightarrow> post_innings db body now new_id = (Inl RequestValidationError, db))
   \<and> (name pbody = [] \<or> 100 < length (name pbody)
     \<longrightarrow> post_players db pbody new_id = (Inl RequestValidationError, db))"
  by (auto simp: post_innings_def post_players_def Innings_valid_def Player_valid_def
      max_length_def)

text \<open>
  401 runs, a negative number of sixes, and an empty name.
\<close>

theorem validation_rejects_out_of_bounds_witness:
  "400 < runs (innings_body ''0000000000000000000000a1'' 401 10)
   \<and> post_innings example_db (innings_body ''0000000000000000000000a1'' 401 10)
        (on_day 2024 6 1) (key 9) = (Inl RequestValidationError, example_db)
   \<and> sixes ((innings_body ''0000000000000000000000a1'' 10 10)\<lparr>sixes := - 1\<rparr>) < 0
   \<and> post_innings example_db ((innings_body ''0000000000000000000000a1'' 10 10)\<lparr>sixes := - 1\<rparr>)
        (on_day 2024 6 1) (key 9) = (Inl RequestValidationError, example_db)
   \<and> name \<lparr>name = [], role = None\<rparr> = []
   \<and> post_players example_db \<lparr>name = [], role = None\<rparr> (key 9)
        = (Inl RequestValidationError, example_db)"
proof -
  have r: "400 < runs (innings_body ''0000000000000000000000a1'' 401 10)"
    by (simp add: innings_body_def)
  have s: "sixes ((innings_body ''0000000000000000000000a1'' 10 10)\<lparr>sixes := - 1\<rparr>) < 0"
    by simp
  have n: "name \<lparr>name = [], role = None\<rparr> = []" by simp
  from validation_rejects_out_of_bounds
         [where body = "innings_body ''0000000000000000000000a1'' 401 10" and db = example_db
            and now = "on_day 2024 6 1" and new_id = "key 9"
            and pbody = "\<lparr>name = [], role = None\<rparr>"]
       validation_rejects_out_of_bounds
         [where body = "(innings_body ''0000000000000000000000a1'' 10 10)\<lparr>sixes := - 1\<rparr>"
            and db = example_db and now = "on_day 2024 6 1" and new_id = "key 9"
            and pbody = "\<lparr>name = [], role = None\<rparr>"]
       r s n
  show ?thesis by simp
qed

subsection \<open>The raw key in the innings query\<close>

text \<open>
  C10. \<open>get_player\<close> and \<open>export_player\<close> look the player up by the parsed key but
  select the innings whose stored \<open>player_id\<close> equals the raw input string. So for a
  well-formed key whose spelling is not the string form of the parsed key (upper-case
  digits, say), the player is returned, with exactly the innings stored under that raw
  spelling; when the stored references are in string form, as the data model has them, the
  innings list is empty and the career totals are all zero, whatever innings reference the
  player.
\<close>

theorem raw_spelling_selects_innings:
  assumes "to_object_id raw = Inr oid"
    and "find (\<lambda>p. player_oid p = oid) (player_coll db) = Some p"
    and "raw \<noteq> str_ObjectId oid"
  shows "(\<exists>r e descending ascending.
            fst (get_player db raw) = Inr r
          \<and> dict_get r ''_id'' = Some (JStr (str_ObjectId oid))
          \<and> dict_get r ''innings'' = Some (JList (map innings_detail descending))
          \<and> dict_get r ''career''
              = Some (JDict (totals (filter (\<lambda>i. player_id i = raw) (innings_coll db))))
          \<and> fst (export_player db raw (Some ''json'')) = Inr (JSONResponse e)
          \<and> dict_get e ''innings'' = Some (JList (map export_innings_json ascending))
          \<and> mset descending = mset (filter (\<lambda>i. player_id i = raw) (innings_coll db))
          \<and> mset ascending = mset (filter (\<lambda>i. player_id i = raw) (innings_coll db)))
       \<and> ((\<forall>i\<in>set (innings_coll db). string_form (player_id i)) \<longrightarrow>
            (\<exists>r e. fst (get_player db raw) = Inr r
               \<and> dict_get r ''innings'' = Some (JList [])
               \<and> dict_get r ''career''
                   = Some (JDict [(''total_runs'', JInt 0), (''total_balls'', JInt 0),
                        (''total_fours'', JInt 0), (''total_sixes'', JInt 0),
                        (''innings_count'', JInt 0), (''strike_rate'', JFloat 0)])
               \<and> fst (export_player db raw (Some ''json'')) = Inr (JSONResponse e)
               \<and> dict_get e ''innings'' = Some (JList [])))"
proof (intro conjI impI)
  note k = assms(1) and f = assms(2)
  from f have po: "player_oid p = oid" by (auto simp: find_Some_iff)
  let ?ms = "filter (\<lambda>i. player_id i = raw) (innings_coll db)"
  have g: "fst (get_player db raw)
          = Inr (JDict (attributes p @
              [(''innings'', JList (map innings_detail (sort_by_date (- 1) (innings_of db raw)))),
               (''career'', JDict (totals (innings_of db raw)))]))"
    by (simp add: get_player_found [OF k f])
  have x: "fst (export_player db raw (Some ''json''))
          = Inr (JSONResponse (JDict [(''player'', JDict (attributes p)),
                   (''innings'', JList (map export_innings_json (sort_by_date 1 (innings_of db raw))))]))"
    by (simp add: export_player_found [OF k f])
  have xi: "dict_get (JDict [(''player'', JDict (attributes p)), (''innings'', v)]) ''innings'' = Some v"
    for v by (simp add: dict_get_def)
  have io: "innings_of db raw = ?ms" by (simp add: innings_of_def)
  show "\<exists>r e descending ascending.
            fst (get_player db raw) = Inr r
          \<and> dict_get r ''_id'' = Some (JStr (str_ObjectId oid))
          \<and> dict_get r ''innings'' = Some (JList (map innings_detail descending))
          \<and> dict_get r ''career'' = Some (JDict (totals ?ms))
          \<and> fst (export_player db raw (Some ''json'')) = Inr (JSONResponse e)
          \<and> dict_get e ''innings'' = Some (JList (map export_innings_json ascending))
          \<and> mset descending = mset ?ms
          \<and> mset ascending = mset ?ms"
    using g x dict_get_id [of p] dict_get_innings [of p] dict_get_career [of p] xi
      mset_sort_by_date [of "- 1" "innings_of db raw"] mset_sort_by_date [of 1 "innings_of db raw"]
    unfolding io po by blast
next
  note k = assms(1) and f = assms(2)
  assume "\<forall>i\<in>set (innings_coll db). string_form (player_id i)"
  then have e: "innings_of db raw = []"
    by (rule no_innings_under_raw [OF k assms(3)])
  have z: "totals [] = [(''total_runs'', JInt 0), (''total_balls'', JInt 0),
                        (''total_fours'', JInt 0), (''total_sixes'', JInt 0),
                        (''innings_count'', JInt 0), (''strike_rate'', JFloat 0)]"
    by (simp add: totals_def strike_rate_def)
  have g: "fst (get_player db raw)
          = Inr (JDict (attributes p @ [(''innings'', JList []), (''career'', JDict (totals []))]))"
    by (simp add: get_player_found [OF k f] e sort_by_date_Nil)
  have x: "fst (export_player db raw (Some ''json''))
          = Inr (JSONResponse (JDict [(''player'', JDict (attributes p)), (''innings'', JList [])]))"
    by (simp add: export_player_found [OF k f] e sort_by_date_Nil)
  have xi: "dict_get (JDict [(''player'', JDict (attributes p)), (''innings'', JList [])]) ''innings''
      = Some (JList [])"
    by (simp add: dict_get_def)
  show "\<exists>r e. fst (get_player db raw) = Inr r
               \<and> dict_get r ''innings'' = Some (JList [])
               \<and> dict_get r ''career''
                   = Some (JDict [(''total_runs'', JInt 0), (''total_balls'', JInt 0),
                        (''total_fours'', JInt 0), (''total_sixes'', JInt 0),
                        (''innings_count'', JInt 0), (''strike_rate'', JFloat 0)])
               \<and> fst (export_player db raw (Some ''json'')) = Inr (JSONResponse e)
               \<and> dict_get e ''innings'' = Some (JList [])"
    using g x xi dict_get_innings [of p "JList []" "JDict (totals [])"]
      dict_get_career [of p "JList []" "JDict (totals [])"]
    unfolding z by blast
qed

text \<open>
  The first player of the example store, asked for with an upper-case digit: two innings
  reference the player, none is returned.
\<close>

theorem raw_spelling_selects_innings_witness:
  "to_object_id ''0000000000000000000000A1'' = Inr (key 161)
   \<and> str_ObjectId (key 161) = ''0000000000000000000000a1''
   \<and> list_all (\<lambda>i. string_form (player_id i)) (innings_coll example_db)
   \<and> length (innings_of example_db ''0000000000000000000000a1'') = 2
   \<and> (\<exists>r e. fst (get_player example_db ''0000000000000000000000A1'') = Inr r
         \<and> dict_get r ''_id'' = Some (JStr ''0000000000000000000000a1'')
         \<and> dict_get r ''innings'' = Some (JList [])
         \<and> dict_get r ''career''
             = Some (JDict [(''total_runs'', JInt 0), (''total_balls'', JInt 0),
                  (''total_fours'', JInt 0), (''total_sixes'', JInt 0),
                  (''innings_count'', JInt 0), (''strike_rate'', JFloat 0)])
         \<and> fst (export_player example_db ''0000000000000000000000A1'' (Some ''json''))
             = Inr (JSONResponse e)
         \<and> dict_get e ''innings'' = Some (JList []))"
proof -
  have k: "to_object_id ''0000000000000000000000A1'' = Inr (key 161)" by code_simp
  have f: "find (\<lambda>p. player_oid p = key 161) (player_coll example_db)
       = Some \<lparr>name = ''Asha'', role = Some ''Batter'', player_oid = key 161\<rparr>"
    by code_simp
  have s: "str_ObjectId (key 161) = ''0000000000000000000000a1''" by code_simp
  have d: "''0000000000000000000000A1'' \<noteq> str_ObjectId (key 161)" by (simp add: s)
  have c: "list_all (\<lambda>i. string_form (player_id i)) (innings_coll example_db)" by code_simp
  then have c': "\<forall>i\<in>set (innings_coll example_db). string_form (player_id i)"
    by (simp add: list_all_iff)
  have n: "length (innings_of example_db ''0000000000000000000000a1'') = 2" by code_simp
  from raw_spelling_selects_innings [OF k f d] c'
  obtain r e r' e' where
      "fst (get_player example_db ''0000000000000000000000A1'') = Inr r"
      "dict_get r ''_id'' = Some (JStr (str_ObjectId (key 161)))"
      "fst (get_player example_db ''0000000000000000000000A1'') = Inr r'"
      "dict_get r' ''innings'' = Some (JList [])"
      "dict_get r' ''career''
             = Some (JDict [(''total_runs'', JInt 0), (''total_balls'', JInt 0),
                  (''total_fours'', JInt 0), (''total_sixes'', JInt 0),
                  (''innings_count'', JInt 0), (''strike_rate'', JFloat 0)])"
      "fst (export_player example_db ''0000000000000000000000A1'' (Some ''json''))
             = Inr (JSONResponse e')"
      "dict_get e' ''innings'' = Some (JList [])"
    by blast
  then show ?thesis using k s c n by auto
qed

end
